theory Spec2Isabelle
  imports Main
begin

section \<open>JSON values, and the platform's JSON.parse and JSON.stringify\<close>

text \<open>
  The route handler and the page exchange JSON texts through the JavaScript built-ins
  JSON.parse and JSON.stringify. They are modelled here by a tokenizer and a pushdown
  recogniser for the grammar of RFC 8259, and by a printer for the compact form.
  Strings are sequences of 8-bit characters (the UTF-8 bytes that travel on the wire).
  A number is kept as the literal that denotes it and is printed as this literal, where
  JavaScript reads a double and prints its shortest decimal. An object is the list of
  its members in the order of the text, a repeated key keeping its first position and
  its last value; JavaScript moves keys that are array indices to the front. No property
  below depends on the order of the members, or on more of the value of a number than
  whether its literal denotes zero.
\<close>

datatype json =
    JNull
  | JBool bool
  | JNum string
  | JStr string
  | JArr "json list"
  | JObj "(string \<times> json) list"

datatype token =
    TLBrace | TRBrace | TLBrack | TRBrack | TColon | TComma
  | TScalar json

definition is_ws :: "char \<Rightarrow> bool" where
  "is_ws c = (c = CHR '' '' \<or> c = CHR 0x09 \<or> c = CHR 0x0A \<or> c = CHR 0x0D)"

definition is_digit :: "char \<Rightarrow> bool" where
  "is_digit c = (48 \<le> (of_char c :: nat) \<and> (of_char c :: nat) \<le> 57)"

definition hex_val :: "char \<Rightarrow> nat option" where
  "hex_val c =
     (let n = (of_char c :: nat) in
      if 48 \<le> n \<and> n \<le> 57 then Some (n - 48)
      else if 97 \<le> n \<and> n \<le> 102 then Some (n - 87)
      else if 65 \<le> n \<and> n \<le> 70 then Some (n - 55)
      else None)"

definition hex4 :: "char \<Rightarrow> char \<Rightarrow> char \<Rightarrow> char \<Rightarrow> nat option" where
  "hex4 a b c d =
     (case (hex_val a, hex_val b, hex_val c, hex_val d) of
        (Some p, Some q, Some r, Some s) \<Rightarrow> Some (((p * 16 + q) * 16 + r) * 16 + s)
      | _ \<Rightarrow> None)"

text \<open>The bytes of a code point in UTF-8 (a lone surrogate gets the three-byte form).\<close>

definition utf8 :: "nat \<Rightarrow> string" where
  "utf8 n =
     (if n < 0x80 then [char_of n]
      else if n < 0x800 then [char_of (0xC0 + n div 64), char_of (0x80 + n mod 64)]
      else if n < 0x10000 then
        [char_of (0xE0 + n div 4096), char_of (0x80 + (n div 64) mod 64),
         char_of (0x80 + n mod 64)]
      else
        [char_of (0xF0 + n div 262144), char_of (0x80 + (n div 4096) mod 64),
         char_of (0x80 + (n div 64) mod 64), char_of (0x80 + n mod 64)])"

definition escape_char :: "char \<Rightarrow> char option" where
  "escape_char e =
     (if e = CHR 0x22 then Some (CHR 0x22)
      else if e = CHR 0x5C then Some (CHR 0x5C)
      else if e = CHR ''/'' then Some (CHR ''/'')
      else if e = CHR ''b'' then Some (CHR 0x08)
      else if e = CHR ''f'' then Some (CHR 0x0C)
      else if e = CHR ''n'' then Some (CHR 0x0A)
      else if e = CHR ''r'' then Some (CHR 0x0D)
      else if e = CHR ''t'' then Some (CHR 0x09)
      else None)"

definition prepend :: "string \<Rightarrow> (string \<times> string) option \<Rightarrow> (string \<times> string) option" where
  "prepend p r = (case r of None \<Rightarrow> None | Some (s, rest) \<Rightarrow> Some (p @ s, rest))"

text \<open>
  \<open>lex_escape\<close> reads one escape sequence after its backslash and returns the bytes it
  denotes with the number of characters read. An escaped high surrogate directly followed
  by an escaped low surrogate is one code point.
\<close>

definition low_surrogate :: "string \<Rightarrow> nat option" where
  "low_surrogate t =
     (if 6 \<le> length t \<and> t ! 0 = CHR 0x5C \<and> t ! 1 = CHR ''u'' then
        (case hex4 (t ! 2) (t ! 3) (t ! 4) (t ! 5) of
           None \<Rightarrow> None
         | Some lo \<Rightarrow> if 0xDC00 \<le> lo \<and> lo < 0xE000 then Some lo else None)
      else None)"

definition unicode_escape :: "string \<Rightarrow> (string \<times> nat) option" where
  "unicode_escape r =
     (if length r < 4 then None
      else
        (case hex4 (r ! 0) (r ! 1) (r ! 2) (r ! 3) of
           None \<Rightarrow> None
         | Some hi \<Rightarrow>
             (case low_surrogate (drop 4 r) of
                None \<Rightarrow> Some (utf8 hi, 5)
              | Some lo \<Rightarrow>
                  if 0xD800 \<le> hi \<and> hi < 0xDC00
                  then Some (utf8 (0x10000 + (hi - 0xD800) * 1024 + (lo - 0xDC00)), 11)
                  else Some (utf8 hi, 5))))"

definition lex_escape :: "string \<Rightarrow> (string \<times> nat) option" where
  "lex_escape es =
     (case es of
        [] \<Rightarrow> None
      | e # r \<Rightarrow>
          if e = CHR ''u'' then unicode_escape r
          else (case escape_char e of None \<Rightarrow> None | Some ch \<Rightarrow> Some ([ch], 1)))"

text \<open>
  \<open>lex_string\<close> reads a string literal after its opening quote and returns the
  characters it denotes with the input left after the closing quote.
\<close>

fun lex_string :: "string \<Rightarrow> (string \<times> string) option" where
  "lex_string [] = None"
| "lex_string (c # cs) =
     (if c = CHR 0x22 then Some ([], cs)
      else if c = CHR 0x5C then
        (case lex_escape cs of
           None \<Rightarrow> None
         | Some (p, k) \<Rightarrow> prepend p (lex_string (drop k cs)))
      else if (of_char c :: nat) < 0x20 then None
      else prepend [c] (lex_string cs))"

text \<open>
  \<open>lex_number\<close> reads the longest number literal
  \<open>-? (0 | [1-9][0-9]*) (. [0-9]+)? ([eE] [+-]? [0-9]+)?\<close> at the head of the input.
\<close>

definition lex_int :: "string \<Rightarrow> (string \<times> string) option" where
  "lex_int cs =
     (case cs of
        [] \<Rightarrow> None
      | d # r \<Rightarrow>
          if d = CHR ''0'' then Some ([d], r)
          else if is_digit d then Some (takeWhile is_digit cs, dropWhile is_digit cs)
          else None)"

definition lex_frac :: "string \<Rightarrow> (string \<times> string) option" where
  "lex_frac cs =
     (case cs of
        [] \<Rightarrow> Some ([], cs)
      | p # r \<Rightarrow>
          if p = CHR ''.'' then
            (if takeWhile is_digit r = [] then None
             else Some (p # takeWhile is_digit r, dropWhile is_digit r))
          else Some ([], cs))"

definition lex_digits1 :: "string \<Rightarrow> string \<Rightarrow> (string \<times> string) option" where
  "lex_digits1 pre r =
     (if takeWhile is_digit r = [] then None
      else Some (pre @ takeWhile is_digit r, dropWhile is_digit r))"

definition lex_exp :: "string \<Rightarrow> (string \<times> string) option" where
  "lex_exp cs =
     (case cs of
        [] \<Rightarrow> Some ([], cs)
      | e # r \<Rightarrow>
          if e = CHR ''e'' \<or> e = CHR ''E'' then
            (case r of
               [] \<Rightarrow> None
             | s # r' \<Rightarrow>
                 if s = CHR ''+'' \<or> s = CHR ''-'' then lex_digits1 [e, s] r'
                 else lex_digits1 [e] r)
          else Some ([], cs))"

definition lex_unsigned :: "string \<Rightarrow> (string \<times> string) option" where
  "lex_unsigned cs =
     (case lex_int cs of
        None \<Rightarrow> None
      | Some (i, r1) \<Rightarrow>
          (case lex_frac r1 of
             None \<Rightarrow> None
           | Some (f, r2) \<Rightarrow>
               (case lex_exp r2 of
                  None \<Rightarrow> None
                | Some (e, r3) \<Rightarrow> Some (i @ f @ e, r3))))"

definition lex_number :: "string \<Rightarrow> (string \<times> string) option" where
  "lex_number cs =
     (case cs of
        [] \<Rightarrow> None
      | c # r \<Rightarrow> if c = CHR ''-'' then prepend [c] (lex_unsigned r) else lex_unsigned cs)"

definition cons_tok :: "token \<Rightarrow> token list option \<Rightarrow> token list option" where
  "cons_tok t r = map_option ((#) t) r"

lemma prepend_rest: "prepend p x = Some (s, r) \<Longrightarrow> \<exists>s'. x = Some (s', r)"
  by (auto simp: prepend_def split: option.splits)

lemma lex_string_shorter: "lex_string cs = Some (s, r) \<Longrightarrow> length r < length cs"
proof (induction cs arbitrary: s r rule: lex_string.induct)
  case 1
  then show ?case by simp
next
  case (2 c cs)
  show ?case
  proof (cases "c = CHR 0x22")
    case True
    with "2.prems" show ?thesis by simp
  next
    case quote: False
    show ?thesis
    proof (cases "c = CHR 0x5C")
      case True
      with quote "2.prems" obtain p k s' where
        esc: "lex_escape cs = Some (p, k)" and rest: "lex_string (drop k cs) = Some (s', r)"
        by (auto split: option.splits dest: prepend_rest)
      from "2.IH"(1)[OF quote True esc refl rest] show ?thesis by simp
    next
      case False
      with quote "2.prems" obtain s' where
        ctl: "\<not> (of_char c :: nat) < 0x20" and rest: "lex_string cs = Some (s', r)"
        by (auto split: if_splits dest: prepend_rest)
      from "2.IH"(2)[OF quote False ctl rest] show ?thesis by simp
    qed
  qed
qed

lemma lex_int_shorter: "lex_int cs = Some (s, r) \<Longrightarrow> length r < length cs"
  by (auto simp: lex_int_def split: list.splits if_splits
      intro: le_imp_less_Suc length_dropWhile_le)

lemma lex_digits1_shorter: "lex_digits1 p cs = Some (s, r) \<Longrightarrow> length r \<le> length cs"
  by (auto simp: lex_digits1_def split: if_splits intro: length_dropWhile_le)

lemma lex_frac_shorter: "lex_frac cs = Some (s, r) \<Longrightarrow> length r \<le> length cs"
  by (auto simp: lex_frac_def split: list.splits if_splits
      intro: le_SucI length_dropWhile_le)

lemma lex_exp_shorter: "lex_exp cs = Some (s, r) \<Longrightarrow> length r \<le> length cs"
  by (auto simp: lex_exp_def split: list.splits if_splits
      dest!: lex_digits1_shorter)

lemma lex_unsigned_shorter: "lex_unsigned cs = Some (s, r) \<Longrightarrow> length r < length cs"
  by (auto simp: lex_unsigned_def split: option.splits
      dest!: lex_int_shorter lex_frac_shorter lex_exp_shorter)

lemma lex_number_shorter: "lex_number cs = Some (s, r) \<Longrightarrow> length r < length cs"
  by (auto simp: lex_number_def split: list.splits if_splits
      dest!: prepend_rest lex_unsigned_shorter)

function tokens :: "string \<Rightarrow> token list option" where
  "tokens [] = Some []"
| "tokens (c # cs) =
     (if is_ws c then tokens cs
      else if c = CHR ''{'' then cons_tok TLBrace (tokens cs)
      else if c = CHR ''}'' then cons_tok TRBrace (tokens cs)
      else if c = CHR ''['' then cons_tok TLBrack (tokens cs)
      else if c = CHR '']'' then cons_tok TRBrack (tokens cs)
      else if c = CHR '':'' then cons_tok TColon (tokens cs)
      else if c = CHR '','' then cons_tok TComma (tokens cs)
      else if c = CHR 0x22 then
        (case lex_string cs of
           None \<Rightarrow> None
         | Some (s, r) \<Rightarrow> cons_tok (TScalar (JStr s)) (tokens r))
      else if c = CHR ''t'' then
        (if take 3 cs = ''rue'' then cons_tok (TScalar (JBool True)) (tokens (drop 3 cs))
         else None)
      else if c = CHR ''f'' then
        (if take 4 cs = ''alse'' then cons_tok (TScalar (JBool False)) (tokens (drop 4 cs))
         else None)
      else if c = CHR ''n'' then
        (if take 3 cs = ''ull'' then cons_tok (TScalar JNull) (tokens (drop 3 cs))
         else None)
      else
        (case lex_number (c # cs) of
           None \<Rightarrow> None
         | Some (s, r) \<Rightarrow> cons_tok (TScalar (JNum s)) (tokens r)))"
  by pat_completeness auto
termination
  by (relation "measure length")
     (auto dest: lex_string_shorter lex_number_shorter)

text \<open>
  The recogniser reads the tokens from left to right. A \<open>frame\<close> is an array or an
  object that is still open, with the elements read so far (and, for an object, the key
  whose value is being read); the state says what may come next.
\<close>

datatype frame =
    FArr "json list"
  | FObj "(string \<times> json) list" string

datatype pstate =
    WantValue "frame list"
  | ArrOpen "frame list"
  | ObjOpen "frame list"
  | WantKey "(string \<times> json) list" "frame list"
  | WantColon "(string \<times> json) list" string "frame list"
  | Have json "frame list"

fun put_member :: "string \<Rightarrow> json \<Rightarrow> (string \<times> json) list \<Rightarrow> (string \<times> json) list" where
  "put_member k v [] = [(k, v)]"
| "put_member k v (p # ps) = (if fst p = k then (k, v) # ps else p # put_member k v ps)"

fun begin_value :: "frame list \<Rightarrow> token \<Rightarrow> pstate option" where
  "begin_value fs TLBrack = Some (ArrOpen fs)"
| "begin_value fs TLBrace = Some (ObjOpen fs)"
| "begin_value fs (TScalar v) = Some (Have v fs)"
| "begin_value fs TRBrace = None"
| "begin_value fs TRBrack = None"
| "begin_value fs TColon = None"
| "begin_value fs TComma = None"

fun pstep :: "pstate \<Rightarrow> token \<Rightarrow> pstate option" where
  "pstep (WantValue fs) t = begin_value fs t"
| "pstep (ArrOpen fs) t =
     (case t of TRBrack \<Rightarrow> Some (Have (JArr []) fs) | _ \<Rightarrow> begin_value (FArr [] # fs) t)"
| "pstep (ObjOpen fs) t =
     (case t of
        TRBrace \<Rightarrow> Some (Have (JObj []) fs)
      | TScalar (JStr k) \<Rightarrow> Some (WantColon [] k fs)
      | _ \<Rightarrow> None)"
| "pstep (WantKey ps fs) t =
     (case t of TScalar (JStr k) \<Rightarrow> Some (WantColon ps k fs) | _ \<Rightarrow> None)"
| "pstep (WantColon ps k fs) t =
     (case t of TColon \<Rightarrow> Some (WantValue (FObj ps k # fs)) | _ \<Rightarrow> None)"
| "pstep (Have v []) t = None"
| "pstep (Have v (FArr xs # fs)) t =
     (case t of
        TComma \<Rightarrow> Some (WantValue (FArr (xs @ [v]) # fs))
      | TRBrack \<Rightarrow> Some (Have (JArr (xs @ [v])) fs)
      | _ \<Rightarrow> None)"
| "pstep (Have v (FObj ps k # fs)) t =
     (case t of
        TComma \<Rightarrow> Some (WantKey (put_member k v ps) fs)
      | TRBrace \<Rightarrow> Some (Have (JObj (put_member k v ps)) fs)
      | _ \<Rightarrow> None)"

fun run_tokens :: "pstate \<Rightarrow> token list \<Rightarrow> pstate option" where
  "run_tokens st [] = Some st"
| "run_tokens st (t # ts) =
     (case pstep st t of None \<Rightarrow> None | Some st' \<Rightarrow> run_tokens st' ts)"

text \<open>JSON.parse: \<open>None\<close> is the SyntaxError it throws.\<close>

definition JSON_parse :: "string \<Rightarrow> json option" where
  "JSON_parse s =
     (case tokens s of
        None \<Rightarrow> None
      | Some ts \<Rightarrow>
          (case run_tokens (WantValue []) ts of
             Some (Have v []) \<Rightarrow> Some v
           | _ \<Rightarrow> None))"

text \<open>JSON.stringify without indentation. A number prints as its literal.\<close>

definition hex_digit :: "nat \<Rightarrow> char" where
  "hex_digit n = (if n < 10 then char_of (48 + n) else char_of (87 + n))"

definition quote_char :: "char \<Rightarrow> string" where
  "quote_char c =
     (if c = CHR 0x22 then [CHR 0x5C, CHR 0x22]
      else if c = CHR 0x5C then [CHR 0x5C, CHR 0x5C]
      else if c = CHR 0x08 then [CHR 0x5C, CHR ''b'']
      else if c = CHR 0x0C then [CHR 0x5C, CHR ''f'']
      else if c = CHR 0x0A then [CHR 0x5C, CHR ''n'']
      else if c = CHR 0x0D then [CHR 0x5C, CHR ''r'']
      else if c = CHR 0x09 then [CHR 0x5C, CHR ''t'']
      else if (of_char c :: nat) < 0x20 then
        [CHR 0x5C, CHR ''u'', CHR ''0'', CHR ''0'',
         hex_digit (of_char c div 16), hex_digit (of_char c mod 16)]
      else [c])"

definition quote :: "string \<Rightarrow> string" where
  "quote s = [CHR 0x22] @ concat (map quote_char s) @ [CHR 0x22]"

fun join :: "'a list \<Rightarrow> 'a list list \<Rightarrow> 'a list" where
  "join sep [] = []"
| "join sep [x] = x"
| "join sep (x # y # ys) = x @ sep @ join sep (y # ys)"

fun JSON_stringify :: "json \<Rightarrow> string" where
  "JSON_stringify JNull = ''null''"
| "JSON_stringify (JBool b) = (if b then ''true'' else ''false'')"
| "JSON_stringify (JNum n) = n"
| "JSON_stringify (JStr s) = quote s"
| "JSON_stringify (JArr xs) = ''['' @ join '','' (map JSON_stringify xs) @ '']''"
| "JSON_stringify (JObj ps) =
     ''{'' @ join '','' (map (\<lambda>p. quote (fst p) @ '':'' @ JSON_stringify (snd p)) ps) @ ''}''"

section \<open>The route handler: translating the provider's stream\<close>

text \<open>
  The events of the provider's stream, with the fields the handler reads. A field the
  provider may leave out is an option; \<open>OtherEvent\<close> is an event of any other type.
\<close>

record content_block =
  block_type :: string
  block_name :: "string option"
  block_id :: "string option"

record delta =
  delta_type :: string
  delta_text :: "string option"
  partial_json :: "string option"

datatype raw_event =
    ContentBlockStart content_block
  | ContentBlockDelta delta
  | ContentBlockStop
  | MessageStop
  | OtherEvent string

text \<open>The payloads the handler writes, before they are framed.\<close>

datatype downstream =
    Text string
  | ToolStart string string
  | ToolComplete string string json
  | Done
  | Error string

text \<open>The three variables the loop keeps between events.\<close>

record translator =
  currentToolName :: string
  currentToolInput :: string
  currentToolId :: string

definition initial :: translator where
  "initial = \<lparr>currentToolName = [], currentToolInput = [], currentToolId = []\<rparr>"

text \<open>JavaScript's truth value of an optional string, and \<open>x || d\<close>.\<close>

definition truthy :: "string option \<Rightarrow> bool" where
  "truthy x = (case x of None \<Rightarrow> False | Some s \<Rightarrow> s \<noteq> [])"

definition or_else :: "string option \<Rightarrow> string \<Rightarrow> string" where
  "or_else x d = (case x of None \<Rightarrow> d | Some s \<Rightarrow> if s \<noteq> [] then s else d)"

text \<open>
  The input of a finished tool call: the parsed value, and in the \<open>catch\<close> branch the
  raw text in an object, or the empty object when there is no text.
\<close>

definition parsedInput :: "string \<Rightarrow> json" where
  "parsedInput s =
     (case JSON_parse s of
        Some v \<Rightarrow> v
      | None \<Rightarrow> if s \<noteq> [] then JObj [(''raw'', JStr s)] else JObj [])"

text \<open>One turn of the loop: the new variables and the payloads enqueued.\<close>

fun on_event :: "translator \<Rightarrow> raw_event \<Rightarrow> translator \<times> downstream list" where
  "on_event st (ContentBlockStart block) =
     (if (block_type block = ''tool_use'' \<or> block_type block = ''mcp_tool_use'')
         \<and> truthy (block_name block)
      then
        (let st' = \<lparr>currentToolName = or_else (block_name block) [],
                       currentToolInput = [],
                       currentToolId = or_else (block_id block) []\<rparr>
         in (st', [ToolStart (currentToolName st') (currentToolId st')]))
      else (st, []))"
| "on_event st (ContentBlockDelta d) =
     (if delta_type d = ''text_delta'' \<and> truthy (delta_text d)
      then (st, [Text (or_else (delta_text d) [])])
      else if delta_type d = ''input_json_delta'' \<and> truthy (partial_json d)
      then (st\<lparr>currentToolInput := currentToolInput st @ or_else (partial_json d) []\<rparr>, [])
      else (st, []))"
| "on_event st ContentBlockStop =
     (if currentToolName st \<noteq> []
      then (\<lparr>currentToolName = [], currentToolInput = [], currentToolId = []\<rparr>,
            [ToolComplete (currentToolName st) (currentToolId st)
               (parsedInput (currentToolInput st))])
      else (st, []))"
| "on_event st MessageStop = (st, [Done])"
| "on_event st (OtherEvent t) = (st, [])"

text \<open>The loop over the events that arrive, with everything it enqueued.\<close>

fun translate :: "translator \<Rightarrow> raw_event list \<Rightarrow> translator \<times> downstream list" where
  "translate st [] = (st, [])"
| "translate st (e # es) =
     (let (st', out) = on_event st e;
          (st'', outs) = translate st' es
      in (st'', out @ outs))"

definition emitted :: "raw_event list \<Rightarrow> downstream list" where
  "emitted es = snd (translate initial es)"

text \<open>The object each payload is, and its frame on the wire.\<close>

fun payload :: "downstream \<Rightarrow> json" where
  "payload (Text c) = JObj [(''type'', JStr ''text''), (''content'', JStr c)]"
| "payload (ToolStart n i) =
     JObj [(''type'', JStr ''tool_start''), (''name'', JStr n), (''id'', JStr i)]"
| "payload (ToolComplete n i v) =
     JObj [(''type'', JStr ''tool_complete''), (''name'', JStr n), (''id'', JStr i),
           (''input'', v)]"
| "payload Done = JObj [(''type'', JStr ''done'')]"
| "payload (Error m) = JObj [(''type'', JStr ''error''), (''error'', JStr m)]"

definition frame :: "downstream \<Rightarrow> string" where
  "frame ev = ''data: '' @ JSON_stringify (payload ev) @ [CHR 0x0A, CHR 0x0A]"

text \<open>
  The response stream's controller, with the chunks enqueued so far. A thrown value is an
  Error with its message, or anything else. The provider's stream is the events it
  yields and, when the iteration throws after them, what it throws.
\<close>

record controller =
  chunks :: "string list"
  closed :: bool

definition enqueue :: "controller \<Rightarrow> string \<Rightarrow> controller" where
  "enqueue c x = c\<lparr>chunks := chunks c @ [x]\<rparr>"

definition close :: "controller \<Rightarrow> controller" where
  "close c = c\<lparr>closed := True\<rparr>"

datatype js_error = ErrorInstance string | NotAnError

definition error_message :: "js_error \<Rightarrow> string" where
  "error_message e = (case e of ErrorInstance m \<Rightarrow> m | NotAnError \<Rightarrow> ''Unknown error'')"

record provider_stream =
  events :: "raw_event list"
  failure :: "js_error option"

text \<open>
  \<open>start\<close> of the response stream. Its argument is what \<open>client.messages.stream\<close>
  gives: it throws (\<open>Inl\<close>), or it is a stream whose events are translated one by
  one until it ends or throws.
\<close>

definition start :: "js_error + provider_stream \<Rightarrow> controller" where
  "start response =
     (let c0 = \<lparr>chunks = [], closed = False\<rparr> in
      case response of
        Inl e \<Rightarrow> close (enqueue c0 (frame (Error (error_message e))))
      | Inr r \<Rightarrow>
          (let c1 = foldl enqueue c0 (map frame (emitted (events r))) in
           case failure r of
             None \<Rightarrow> close c1
           | Some e \<Rightarrow> close (enqueue c1 (frame (Error (error_message e))))))"

subsection \<open>The request, before the stream\<close>












datatype response =
    JsonResponse nat json
  | EventStream "(string \<times> string) list" controller



section \<open>The page: reading the response\<close>








datatype status = Running | Complete

record tool_call =
  tc_name :: string
  tc_id :: string
  tc_input :: "json option"
  tc_status :: status

record message =
  role :: string
  content :: string
  toolCalls :: "tool_call list option"

text \<open>
  The two variables of the reading loop, and the assistant message last given to
  \<open>setMessages\<close>.
\<close>

record page =
  currentContent :: string
  currentToolCalls :: "tool_call list"
  assistant :: message

definition page0 :: page where
  "page0 =
     \<lparr>currentContent = [], currentToolCalls = [],
      assistant = \<lparr>role = ''assistant'', content = [], toolCalls = Some []\<rparr>\<rparr>"

fun show_nat :: "nat \<Rightarrow> string" where
  "show_nat n =
     (if n < 10 then [char_of (48 + n)] else show_nat (n div 10) @ [char_of (48 + n mod 10)])"

definition show_message :: "page \<Rightarrow> page" where
  "show_message st =
     st\<lparr>assistant :=
          \<lparr>role = ''assistant'', content = currentContent st,
           toolCalls = Some (currentToolCalls st)\<rparr>\<rparr>"

definition complete_call :: "string \<Rightarrow> string \<Rightarrow> json \<Rightarrow> tool_call \<Rightarrow> tool_call" where
  "complete_call n i v tc =
     (if i \<noteq> [] \<and> tc_id tc = i then tc\<lparr>tc_status := Complete, tc_input := Some v\<rparr>
      else if i = [] \<and> tc_name tc = n \<and> tc_status tc = Running
      then tc\<lparr>tc_status := Complete, tc_input := Some v\<rparr>
      else tc)"

fun on_data :: "page \<Rightarrow> downstream \<Rightarrow> page" where
  "on_data st (Text c) = show_message (st\<lparr>currentContent := currentContent st @ c\<rparr>)"
| "on_data st (ToolStart n i) =
     (let toolId = (if i \<noteq> [] then i else ''tool-'' @ show_nat (length (currentToolCalls st)))
      in show_message
           (st\<lparr>currentToolCalls :=
                 currentToolCalls st
                   @ [\<lparr>tc_name = n, tc_id = toolId, tc_input = None, tc_status = Running\<rparr>]\<rparr>))"
| "on_data st (ToolComplete n i v) =
     show_message (st\<lparr>currentToolCalls := map (complete_call n i v) (currentToolCalls st)\<rparr>)"
| "on_data st (Error m) =
     st\<lparr>assistant := \<lparr>role = ''assistant'', content = ''Error: '' @ m, toolCalls = None\<rparr>\<rparr>"
| "on_data st Done = st"





section \<open>Notions the properties are stated with\<close>

text \<open>The contents of the text payloads of an output, in order.\<close>

fun text_contents :: "downstream list \<Rightarrow> string list" where
  "text_contents [] = []"
| "text_contents (Text c # out) = c # text_contents out"
| "text_contents (ToolStart n i # out) = text_contents out"
| "text_contents (ToolComplete n i v # out) = text_contents out"
| "text_contents (Done # out) = text_contents out"
| "text_contents (Error m # out) = text_contents out"

text \<open>
  The text fragment a raw event carries: the \<open>text\<close> of a \<open>text_delta\<close>, nothing for
  every other event (and for a \<open>text_delta\<close> without a \<open>text\<close>).
\<close>

definition text_fragment :: "raw_event \<Rightarrow> string" where
  "text_fragment e =
     (case e of
        ContentBlockDelta d \<Rightarrow>
          if delta_type d = ''text_delta'' then (case delta_text d of None \<Rightarrow> [] | Some t \<Rightarrow> t)
          else []
      | _ \<Rightarrow> [])"






text \<open>
  A tool block as the provider streams it: its start, the fragments of its input as
  \<open>input_json_delta\<close> events, its stop.
\<close>

definition json_delta :: "string \<Rightarrow> raw_event" where
  "json_delta f =
     ContentBlockDelta
       \<lparr>delta_type = ''input_json_delta'', delta_text = None, partial_json = Some f\<rparr>"

definition tool_block :: "string \<Rightarrow> string \<Rightarrow> string option \<Rightarrow> string list \<Rightarrow> raw_event list" where
  "tool_block ty n i fs =
     ContentBlockStart \<lparr>block_type = ty, block_name = Some n, block_id = i\<rparr>
       # map json_delta fs @ [ContentBlockStop]"

subsection \<open>Well-formed values\<close>













section \<open>Properties of the translator\<close>

lemma translate_append:
  "translate st (es @ es') =
     (fst (translate (fst (translate st es)) es'),
      snd (translate st es) @ snd (translate (fst (translate st es)) es'))"
  by (induction es arbitrary: st) (simp_all add: split_beta)

lemma text_contents_append: "text_contents (xs @ ys) = text_contents xs @ text_contents ys"
  by (induction xs rule: text_contents.induct) simp_all

lemma on_event_text_contents:
  "text_contents (snd (on_event st e)) = filter (\<lambda>t. t \<noteq> []) [text_fragment e]"
  by (cases e)
     (auto simp: text_fragment_def truthy_def or_else_def split: option.splits)

lemma translate_text_contents:
  "text_contents (snd (translate st es)) = filter (\<lambda>t. t \<noteq> []) (map text_fragment es)"
proof (induction es arbitrary: st)
  case Nil
  show ?case by simp
next
  case (Cons e es)
  have "text_contents (snd (translate st (e # es))) =
        text_contents (snd (on_event st e)) @
        text_contents (snd (translate (fst (on_event st e)) es))"
    by (simp add: split_beta text_contents_append)
  then show ?case
    by (simp add: on_event_text_contents Cons.IH)
qed

lemma concat_nonempty: "concat (filter (\<lambda>t. t \<noteq> []) xs) = concat xs"
  by (induction xs) simp_all

lemma on_event_no_empty_text: "Text [] \<notin> set (snd (on_event st e))"
  by (cases e) (auto simp: truthy_def or_else_def split: option.splits)

lemma translate_no_empty_text: "Text [] \<notin> set (snd (translate st es))"
  by (induction es arbitrary: st) (simp_all add: split_beta on_event_no_empty_text)











lemma translate_json_deltas:
  "translate st (map json_delta fs) =
     (st\<lparr>currentToolInput := currentToolInput st @ concat fs\<rparr>, [])"
  by (induction fs arbitrary: st) (simp_all add: json_delta_def truthy_def or_else_def)

lemma JSON_parse_empty: "JSON_parse [] = None"
  by (simp add: JSON_parse_def)

lemma parsedInput_cases:
  "(\<forall>v. JSON_parse s = Some v \<longrightarrow> parsedInput s = v)
   \<and> (JSON_parse s = None \<and> s \<noteq> [] \<longrightarrow> parsedInput s = JObj [(''raw'', JStr s)])
   \<and> (s = [] \<longrightarrow> parsedInput s = JObj [])"
  by (auto simp: parsedInput_def JSON_parse_empty)

lemma translate_tool_block:
  assumes "ty = ''tool_use'' \<or> ty = ''mcp_tool_use''" and "n \<noteq> []"
  shows "snd (translate st (tool_block ty n i fs)) =
           [ToolStart n (or_else i []),
            ToolComplete n (or_else i []) (parsedInput (concat fs))]"
  using assms
  by (auto simp: tool_block_def translate_append translate_json_deltas truthy_def
        or_else_def Let_def)

lemma foldl_enqueue: "foldl enqueue c xs = c\<lparr>chunks := chunks c @ xs\<rparr>"
  by (induction xs arbitrary: c) (simp_all add: enqueue_def)

lemma on_event_no_error: "Error m \<notin> set (snd (on_event st e))"
  by (cases e) (auto simp: Let_def)

lemma translate_no_error: "Error m \<notin> set (snd (translate st es))"
  by (induction es arbitrary: st) (simp_all add: split_beta on_event_no_error)

text \<open>
  C1. For the raw sequence content_block_start(tool_use, name "search", id "t1"),
  content_block_delta(input_json_delta, the text \<open>{"q":"x"}\<close>), content_block_stop,
  content_block_delta(text_delta, "Found it"), message_stop, the handler enqueues exactly
  tool_start{search, t1}, tool_complete{search, t1, {q: "x"}}, text{"Found it"}, done{},
  in this order.
\<close>

theorem search_example_sequence:
  "emitted
     [ContentBlockStart
        \<lparr>block_type = ''tool_use'', block_name = Some ''search'', block_id = Some ''t1''\<rparr>,
      ContentBlockDelta
        \<lparr>delta_type = ''input_json_delta'', delta_text = None,
         partial_json = Some ''{\"q\":\"x\"}''\<rparr>,
      ContentBlockStop,
      ContentBlockDelta
        \<lparr>delta_type = ''text_delta'', delta_text = Some ''Found it'', partial_json = None\<rparr>,
      MessageStop]
   = [ToolStart ''search'' ''t1'',
      ToolComplete ''search'' ''t1'' (JObj [(''q'', JStr ''x'')]),
      Text ''Found it'',
      Done]"
  by code_simp

text \<open>
  C3. For every raw event sequence, the contents of the text payloads, in the order they
  are enqueued, are the non-empty text fragments in the order they arrive; so their
  concatenation is the concatenation of all text fragments: none is lost, moved or
  repeated.
\<close>

theorem text_reconstruction:
  "text_contents (emitted es) = filter (\<lambda>t. t \<noteq> []) (map text_fragment es)
   \<and> concat (text_contents (emitted es)) = concat (map text_fragment es)"
  by (simp add: emitted_def translate_text_contents concat_nonempty)

text \<open>
  C10. No text payload has an empty content: a \<open>text_delta\<close> whose text is absent or
  empty enqueues nothing and changes nothing, and an \<open>input_json_delta\<close> whose
  \<open>partial_json\<close> is absent or empty leaves the accumulated input as it is.
\<close>

theorem text_payloads_nonempty:
  "Text [] \<notin> set (emitted es)
   \<and> on_event st (ContentBlockDelta
        \<lparr>delta_type = ''text_delta'', delta_text = None, partial_json = p\<rparr>) = (st, [])
   \<and> on_event st (ContentBlockDelta
        \<lparr>delta_type = ''text_delta'', delta_text = Some [], partial_json = p\<rparr>) = (st, [])
   \<and> on_event st (ContentBlockDelta
        \<lparr>delta_type = ''input_json_delta'', delta_text = t, partial_json = None\<rparr>) = (st, [])
   \<and> on_event st (ContentBlockDelta
        \<lparr>delta_type = ''input_json_delta'', delta_text = t, partial_json = Some []\<rparr>) = (st, [])"
  by (simp add: emitted_def translate_no_empty_text truthy_def)




text \<open>
  C4. A tool block whose name is not empty, with the fragments \<open>fs\<close> of its input,
  yields the tool_start and then one tool_complete whose input is read from the
  fragments joined in their order: the parsed value when the text parses, the object
  \<open>{raw: text}\<close> when it is not empty and does not parse, the empty object when it
  is empty. The handler never throws here and never drops the call.
\<close>

theorem tool_input_accumulation:
  assumes "ty = ''tool_use'' \<or> ty = ''mcp_tool_use''" and "n \<noteq> []"
  shows "snd (translate st (tool_block ty n i fs)) =
           [ToolStart n (or_else i []),
            ToolComplete n (or_else i []) (parsedInput (concat fs))]
     \<and> (\<forall>v. JSON_parse (concat fs) = Some v \<longrightarrow> parsedInput (concat fs) = v)
     \<and> (JSON_parse (concat fs) = None \<and> concat fs \<noteq> [] \<longrightarrow>
          parsedInput (concat fs) = JObj [(''raw'', JStr (concat fs))])
     \<and> (concat fs = [] \<longrightarrow> parsedInput (concat fs) = JObj [])"
  using translate_tool_block[OF assms, of st i fs] parsedInput_cases[of "concat fs"]
  by blast

text \<open>
  The two examples of C4: the fragments \<open>{"a":1\<close> and \<open>}\<close> give the input
  \<open>{"a": 1}\<close>, the fragments \<open>{"a":\<close> and \<open>bad}\<close> give \<open>{raw: "{\"a\":bad}"}\<close>; a
  block without fragments gives the empty object.
\<close>

theorem tool_input_accumulation_witness:
  "snd (translate initial
         (tool_block ''tool_use'' ''calc'' (Some ''t1'') [''{\"a\":1'', ''}''])) =
     [ToolStart ''calc'' ''t1'', ToolComplete ''calc'' ''t1'' (JObj [(''a'', JNum ''1'')])]
   \<and> snd (translate initial
         (tool_block ''mcp_tool_use'' ''calc'' None [''{\"a\":'', ''bad}''])) =
     [ToolStart ''calc'' [],
      ToolComplete ''calc'' [] (JObj [(''raw'', JStr ''{\"a\":bad}'')])]
   \<and> snd (translate initial (tool_block ''tool_use'' ''calc'' (Some ''t1'') [])) =
     [ToolStart ''calc'' ''t1'', ToolComplete ''calc'' ''t1'' (JObj [])]"
proof -
  have p1: "JSON_parse (concat [''{\"a\":1'', ''}'']) = Some (JObj [(''a'', JNum ''1'')])"
    by code_simp
  have p2: "JSON_parse (concat [''{\"a\":'', ''bad}'']) = None"
    by code_simp
  have ty: "''tool_use'' = ''tool_use'' \<or> ''tool_use'' = ''mcp_tool_use''"
    and ty2: "''mcp_tool_use'' = ''tool_use'' \<or> ''mcp_tool_use'' = ''mcp_tool_use''"
    and n: "''calc'' \<noteq> []"
    by simp_all
  from tool_input_accumulation[OF ty n, of initial "Some ''t1''" "[''{\"a\":1'', ''}'']"] p1
  have a: "snd (translate initial
         (tool_block ''tool_use'' ''calc'' (Some ''t1'') [''{\"a\":1'', ''}''])) =
     [ToolStart ''calc'' ''t1'', ToolComplete ''calc'' ''t1'' (JObj [(''a'', JNum ''1'')])]"
    by (simp add: or_else_def)
  from tool_input_accumulation[OF ty2 n, of initial None "[''{\"a\":'', ''bad}'']"] p2
  have b: "snd (translate initial
         (tool_block ''mcp_tool_use'' ''calc'' None [''{\"a\":'', ''bad}''])) =
     [ToolStart ''calc'' [],
      ToolComplete ''calc'' [] (JObj [(''raw'', JStr ''{\"a\":bad}'')])]"
    by (simp add: or_else_def)
  from tool_input_accumulation[OF ty n, of initial "Some ''t1''" "[]"]
  have c: "snd (translate initial (tool_block ''tool_use'' ''calc'' (Some ''t1'') [])) =
     [ToolStart ''calc'' ''t1'', ToolComplete ''calc'' ''t1'' (JObj [])]"
    by (simp add: or_else_def)
  from a b c show ?thesis by simp
qed



text \<open>
  C7. When the iteration of the provider's stream throws, the response holds the frames
  of what was translated before, then one error frame with the message of the error
  (the text "Unknown error" for a thrown value that is not an Error), and it is closed;
  no other error payload is ever enqueued. The same holds when the stream cannot be
  opened at all.
\<close>

theorem stream_error_reported:
  "start (Inr \<lparr>events = es, failure = Some e\<rparr>) =
     \<lparr>chunks = map frame (emitted es @ [Error (error_message e)]), closed = True\<rparr>
   \<and> (\<forall>m. Error m \<notin> set (emitted es))
   \<and> error_message (ErrorInstance msg) = msg
   \<and> start (Inl e) = \<lparr>chunks = [frame (Error (error_message e))], closed = True\<rparr>"
  by (simp add: start_def foldl_enqueue close_def enqueue_def emitted_def
      translate_no_error error_message_def)

section \<open>Properties of the request handling\<close>






section \<open>JSON.parse reads back what JSON.stringify writes\<close>

















lemma sign_no_digit: "\<not> is_digit (CHR ''+'')" "\<not> is_digit (CHR ''-'')"
  by (simp_all add: is_digit_def)













declare tokens.simps [simp del]














































section \<open>Properties of the page\<close>
























text \<open>
  C9. On the page a tool_start appends a running entry to the list of tool calls (its id
  is the event's, or \<open>tool-N\<close> with the length of the list when the event has none). A
  tool_complete completes, and gives its input to, the entries with the event's id when
  it has one, and otherwise the running entries with the event's name; every other entry
  stays as it is. The message shown carries the new list.
\<close>

theorem tool_call_projection:
  "currentToolCalls (on_data st (ToolStart n i)) =
     currentToolCalls st
       @ [\<lparr>tc_name = n,
           tc_id = (if i \<noteq> [] then i else ''tool-'' @ show_nat (length (currentToolCalls st))),
           tc_input = None, tc_status = Running\<rparr>]
   \<and> (i \<noteq> [] \<longrightarrow>
        currentToolCalls (on_data st (ToolComplete n i v)) =
          map (\<lambda>tc. if tc_id tc = i then tc\<lparr>tc_status := Complete, tc_input := Some v\<rparr> else tc)
            (currentToolCalls st))
   \<and> (i = [] \<longrightarrow>
        currentToolCalls (on_data st (ToolComplete n i v)) =
          map (\<lambda>tc. if tc_name tc = n \<and> tc_status tc = Running
                     then tc\<lparr>tc_status := Complete, tc_input := Some v\<rparr> else tc)
            (currentToolCalls st))
   \<and> toolCalls (assistant (on_data st (ToolStart n i)))
        = Some (currentToolCalls (on_data st (ToolStart n i)))
   \<and> toolCalls (assistant (on_data st (ToolComplete n i v)))
        = Some (currentToolCalls (on_data st (ToolComplete n i v)))"
  by (auto simp: show_message_def complete_call_def Let_def)

theorem tool_call_projection_witness:
  "currentToolCalls
     (on_data (on_data (on_data page0 (ToolStart ''a'' ''t1'')) (ToolStart ''b'' ''t2''))
        (ToolComplete ''a'' ''t1'' (JObj [])))
     = [\<lparr>tc_name = ''a'', tc_id = ''t1'', tc_input = Some (JObj []), tc_status = Complete\<rparr>,
        \<lparr>tc_name = ''b'', tc_id = ''t2'', tc_input = None, tc_status = Running\<rparr>]
   \<and> currentToolCalls
     (on_data (on_data (on_data page0 (ToolStart ''a'' [])) (ToolStart ''b'' []))
        (ToolComplete ''b'' [] (JObj [])))
     = [\<lparr>tc_name = ''a'', tc_id = ''tool-0'', tc_input = None, tc_status = Running\<rparr>,
        \<lparr>tc_name = ''b'', tc_id = ''tool-1'', tc_input = Some (JObj []), tc_status = Complete\<rparr>]"
proof -
  have l: "''t1'' \<noteq> []" by simp
  have s1: "currentToolCalls (on_data (on_data page0 (ToolStart ''a'' ''t1'')) (ToolStart ''b'' ''t2''))
     = [\<lparr>tc_name = ''a'', tc_id = ''t1'', tc_input = None, tc_status = Running\<rparr>,
        \<lparr>tc_name = ''b'', tc_id = ''t2'', tc_input = None, tc_status = Running\<rparr>]"
    by code_simp
  have s2: "currentToolCalls (on_data (on_data page0 (ToolStart ''a'' [])) (ToolStart ''b'' []))
     = [\<lparr>tc_name = ''a'', tc_id = ''tool-0'', tc_input = None, tc_status = Running\<rparr>,
        \<lparr>tc_name = ''b'', tc_id = ''tool-1'', tc_input = None, tc_status = Running\<rparr>]"
    by code_simp
  from tool_call_projection[of
      "on_data (on_data page0 (ToolStart ''a'' ''t1'')) (ToolStart ''b'' ''t2'')"
      "''a''" "''t1''" "JObj []"] l s1
  have a: "currentToolCalls
     (on_data (on_data (on_data page0 (ToolStart ''a'' ''t1'')) (ToolStart ''b'' ''t2''))
        (ToolComplete ''a'' ''t1'' (JObj [])))
     = [\<lparr>tc_name = ''a'', tc_id = ''t1'', tc_input = Some (JObj []), tc_status = Complete\<rparr>,
        \<lparr>tc_name = ''b'', tc_id = ''t2'', tc_input = None, tc_status = Running\<rparr>]"
    by simp
  from tool_call_projection[of
      "on_data (on_data page0 (ToolStart ''a'' [])) (ToolStart ''b'' [])"
      "''b''" "[]" "JObj []"] s2
  have b: "currentToolCalls
     (on_data (on_data (on_data page0 (ToolStart ''a'' [])) (ToolStart ''b'' []))
        (ToolComplete ''b'' [] (JObj [])))
     = [\<lparr>tc_name = ''a'', tc_id = ''tool-0'', tc_input = None, tc_status = Running\<rparr>,
        \<lparr>tc_name = ''b'', tc_id = ''tool-1'', tc_input = Some (JObj []), tc_status = Complete\<rparr>]"
    by simp
  from a b show ?thesis by simp
qed

end
